theory Spec2Isabelle
  imports Complex_Main "HOL-Library.Monad_Syntax"
begin

section \<open>Numbers\<close>

text \<open>
  The server and the client compute with JavaScript numbers. A finite number is modelled
  by the rational it denotes and arithmetic is exact: the rounding of each binary64
  operation, overflow and the sign of zero are not part of the model. The trench
  dimensions and the derived volume are such rationals. Fields that can be filled from
  \<open>parseFloat\<close> have the type \<open>number\<close>, which adds the values that \<open>parseFloat\<close>
  can return besides a finite number.
\<close>

datatype number = NaN | Num rat | Infinity | NegInfinity

text \<open>\<open>a || b\<close> on numbers: \<open>NaN\<close> and zero are falsy.\<close>

definition falsy :: "number \<Rightarrow> bool" where
  "falsy n = (n = NaN \<or> n = Num 0)"

definition or_else :: "number \<Rightarrow> number \<Rightarrow> number" where
  "or_else a b = (if falsy a then b else a)"

text \<open>
  \<open>a || null\<close> and \<open>a || d\<close> on a text that may be missing (\<open>None\<close>) or null
  (\<open>Some None\<close>): undefined, null and the empty string are falsy.
\<close>

definition or_null :: "string option option \<Rightarrow> string option" where
  "or_null a = (case a of Some (Some s) \<Rightarrow> if s = [] then None else Some s | _ \<Rightarrow> None)"

definition or_text :: "string option \<Rightarrow> string \<Rightarrow> string" where
  "or_text a d = (case a of Some s \<Rightarrow> if s = [] then d else s | None \<Rightarrow> d)"

text \<open>
  \<open>a ?? d\<close>, and the value of a column after an update that sets it only when the key
  is present.
\<close>

definition coalesce :: "'a option \<Rightarrow> 'a \<Rightarrow> 'a" where
  "coalesce a d = (case a of Some v \<Rightarrow> v | None \<Rightarrow> d)"

subsection \<open>\<open>Number(x.toFixed(f))\<close>\<close>

text \<open>
  \<open>toFixed\<close> prints the integer \<open>n\<close> for which \<open>n / 10 ^ f\<close> is closest to the
  magnitude of \<open>x\<close>, the larger \<open>n\<close> of two equally close ones, with the sign of \<open>x\<close>
  in front; \<open>Number\<close> reads the digits back. From \<open>10 ^ 21\<close> on the built-in prints
  \<open>x\<close> itself; a binary64 value that large is an integer, which rounding to hundredths
  leaves alone, so the one formula covers it.
\<close>

definition toFixed :: "rat \<Rightarrow> nat \<Rightarrow> rat" where
  "toFixed x f =
     (if x < 0 then - (of_int \<lfloor>(- x) * 10 ^ f + 1 / 2\<rfloor> / 10 ^ f)
      else of_int \<lfloor>x * 10 ^ f + 1 / 2\<rfloor> / 10 ^ f)"

subsection \<open>\<open>parseFloat\<close>\<close>

text \<open>
  The built-in skips leading white space and reads the longest prefix that is a decimal
  literal: an optional sign, then \<open>Infinity\<close>, or digits with an optional fraction and
  an optional exponent. Without such a prefix the result is \<open>NaN\<close>. Strings are byte
  lists here, so the white space is the ASCII one.
\<close>

definition isWhiteSpace :: "char \<Rightarrow> bool" where
  "isWhiteSpace c = (c \<in> set [CHR 0x09, CHR 0x0A, CHR 0x0B, CHR 0x0C, CHR 0x0D, CHR 0x20])"

definition isDigit :: "char \<Rightarrow> bool" where
  "isDigit c = (c \<in> set ''0123456789'')"

definition digitsValue :: "string \<Rightarrow> nat" where
  "digitsValue ds = foldl (\<lambda>a c. 10 * a + (of_char c - 48)) 0 ds"

text \<open>Splits an optional sign off: \<open>True\<close> for a minus.\<close>

fun splitSign :: "string \<Rightarrow> bool \<times> string" where
  "splitSign [] = (False, [])"
| "splitSign (c # r) =
     (if c = CHR ''-'' then (True, r) else if c = CHR ''+'' then (False, r) else (False, c # r))"

text \<open>The exponent part: \<open>e\<close> or \<open>E\<close>, an optional sign and at least one digit; else none.\<close>

fun exponentPart :: "string \<Rightarrow> int" where
  "exponentPart [] = 0"
| "exponentPart (c # r) =
     (if c = CHR ''e'' \<or> c = CHR ''E'' then
        (let (neg, d) = splitSign r; ds = takeWhile isDigit d
         in if ds = [] then 0
            else if neg then - int (digitsValue ds) else int (digitsValue ds))
      else 0)"

definition scale10 :: "rat \<Rightarrow> int \<Rightarrow> rat" where
  "scale10 m e = (if 0 \<le> e then m * 10 ^ nat e else m / 10 ^ nat (- e))"

definition parseFloat :: "string \<Rightarrow> number" where
  "parseFloat s =
     (let (neg, u) = splitSign (dropWhile isWhiteSpace s) in
      if take 8 u = ''Infinity'' then (if neg then NegInfinity else Infinity)
      else
        let ip = takeWhile isDigit u;
            r1 = dropWhile isDigit u;
            (fp, r2) = (case r1 of
                          [] \<Rightarrow> ([], [])
                        | c # r \<Rightarrow> if c = CHR ''.''
                                   then (takeWhile isDigit r, dropWhile isDigit r)
                                   else ([], r1))
        in if ip = [] \<and> fp = [] then NaN
           else
             let m = scale10 (of_nat (digitsValue (ip @ fp)) / 10 ^ length fp) (exponentPart r2)
             in Num (if neg then - m else m))"

section \<open>The calculation engine\<close>

text \<open>\<open>calculateCubicYards\<close> of the shared schema module.\<close>

definition calculateCubicYards :: "rat \<Rightarrow> rat \<Rightarrow> rat \<Rightarrow> rat" where
  "calculateCubicYards pipeLength trenchWidth trenchDepth =
     (let cubicFeet = pipeLength * trenchWidth * trenchDepth
      in toFixed (cubicFeet / 27) 2)"

text \<open>
  The amounts that the \<open>LaborCalculator\<close> component derives from its property
  \<open>estimatedHours\<close> before it renders them.
\<close>

record labor_costs =
  excavator250Cost :: rat
  excavator200Cost :: rat
  loaderCost :: rat
  pipeGuyCost :: rat
  topGuyCost :: rat
  totalEquipmentCost :: rat
  totalCrewCost :: rat

definition EXCAVATOR_250_RATE :: rat where "EXCAVATOR_250_RATE = 250"
definition EXCAVATOR_200_RATE :: rat where "EXCAVATOR_200_RATE = 200"
definition LOADER_RATE :: rat where "LOADER_RATE = 200"
definition PIPE_GUY_RATE :: rat where "PIPE_GUY_RATE = 45"
definition TOP_GUY_RATE :: rat where "TOP_GUY_RATE = 40"

definition LaborCalculator :: "rat \<Rightarrow> labor_costs" where
  "LaborCalculator estimatedHours =
     (let excavator250 = estimatedHours * EXCAVATOR_250_RATE;
          excavator200 = estimatedHours * EXCAVATOR_200_RATE;
          loader = estimatedHours * LOADER_RATE;
          pipeGuy = estimatedHours * PIPE_GUY_RATE;
          topGuy = estimatedHours * TOP_GUY_RATE
      in \<lparr>excavator250Cost = excavator250,
          excavator200Cost = excavator200,
          loaderCost = loader,
          pipeGuyCost = pipeGuy,
          topGuyCost = topGuy,
          totalEquipmentCost = excavator250 + excavator200 + loader,
          totalCrewCost = pipeGuy + topGuy\<rparr>)"

section \<open>The persisted rows\<close>

text \<open>
  The tables \<open>jobs\<close> and \<open>estimates\<close> of the shared schema module. A column that may be
  null is an option. The store keeps a number as it is given. The fields of a job row
  carry the prefix \<open>j_\<close>, those of an estimate row the prefix \<open>e_\<close>.
\<close>

record job =
  j_id :: int
  j_name :: string
  j_location :: string
  j_client :: string
  j_startDate :: "string option"
  j_status :: string
  j_notes :: "string option"

record estimate =
  e_id :: int
  e_jobId :: int
  e_description :: "string option"
  e_pipeLength :: rat
  e_trenchWidth :: rat
  e_trenchDepth :: rat
  e_cubicYards :: rat
  e_materialWeight :: number
  e_importUnitCost :: number
  e_estimatedHours :: "number option"
  e_createdAt :: "nat option"
  e_notes :: "string option"



section \<open>Request bodies and their validation\<close>

text \<open>
  A request body is the object that the JSON body parser hands to the handler: a finite
  map from keys to JSON values. Arrays and nested objects are never valid for a field
  of either schema and are one constructor.
\<close>

datatype json = JNull | JBool bool | JNumber rat | JString string | JOther

type_synonym body = "string \<Rightarrow> json option"

subsection \<open>The schema combinators\<close>

text \<open>A schema reads a JSON value and gives its output, or \<open>None\<close> for an issue.\<close>

fun z_string :: "json \<Rightarrow> string option" where
  "z_string (JString s) = Some s"
| "z_string _ = None"

fun z_number :: "json \<Rightarrow> rat option" where
  "z_number (JNumber q) = Some q"
| "z_number _ = None"

text \<open>\<open>z.number().positive(...)\<close> and \<open>z.number().min(0, ...)\<close>.\<close>

definition z_number_positive :: "json \<Rightarrow> rat option" where
  "z_number_positive v = (case z_number v of Some q \<Rightarrow> if 0 < q then Some q else None | None \<Rightarrow> None)"

definition z_number_min0 :: "json \<Rightarrow> rat option" where
  "z_number_min0 v = (case z_number v of Some q \<Rightarrow> if 0 \<le> q then Some q else None | None \<Rightarrow> None)"

text \<open>
  The schema of an integer column. A number that is not integral is never stored under
  it; the model refuses it here.
\<close>

definition z_integer :: "json \<Rightarrow> int option" where
  "z_integer v = (case z_number v of Some q \<Rightarrow> if of_int \<lfloor>q\<rfloor> = q then Some \<lfloor>q\<rfloor> else None | None \<Rightarrow> None)"

text \<open>The schema of a timestamp column expects a \<open>Date\<close> object, which no JSON value is.\<close>

definition z_date :: "json \<Rightarrow> nat option" where
  "z_date v = None"

definition nullable :: "(json \<Rightarrow> 'a option) \<Rightarrow> json \<Rightarrow> 'a option option" where
  "nullable p v = (if v = JNull then Some None else map_option Some (p v))"

text \<open>A union gives the output of its first option that accepts the value.\<close>

definition union :: "(json \<Rightarrow> 'a option) \<Rightarrow> (json \<Rightarrow> 'a option) \<Rightarrow> json \<Rightarrow> 'a option" where
  "union p1 p2 v = (case p1 v of Some x \<Rightarrow> Some x | None \<Rightarrow> p2 v)"

definition transform :: "(json \<Rightarrow> 'a option) \<Rightarrow> ('a \<Rightarrow> 'b) \<Rightarrow> json \<Rightarrow> 'b option" where
  "transform p f v = map_option f (p v)"

text \<open>
  A key of an object schema: \<open>required\<close> has an issue when the key is absent,
  \<open>optional\<close> gives no output for it (\<open>Some None\<close>).
\<close>

definition required :: "(json \<Rightarrow> 'a option) \<Rightarrow> json option \<Rightarrow> 'a option" where
  "required p x = (case x of None \<Rightarrow> None | Some v \<Rightarrow> p v)"

definition optional :: "(json \<Rightarrow> 'a option) \<Rightarrow> json option \<Rightarrow> 'a option option" where
  "optional p x = (case x of None \<Rightarrow> Some None | Some v \<Rightarrow> map_option Some (p v))"

text \<open>The keys of a list whose schema has an issue, for the body of a 400 response.\<close>

definition issues :: "(string \<times> bool) list \<Rightarrow> string list" where
  "issues checks = map fst (filter (\<lambda>(k, ok). \<not> ok) checks)"

subsection \<open>\<open>insertJobSchema\<close>\<close>

text \<open>
  The output of \<open>insertJobSchema\<close> (type \<open>InsertJob\<close>) and of its \<open>partial()\<close>. A key
  that may be missing is an option, and under it a column that may be null is an option
  again.
\<close>

record insert_job =
  ij_name :: string
  ij_location :: string
  ij_client :: string
  ij_startDate :: "string option option"
  ij_status :: "string option"
  ij_notes :: "string option option"

record partial_job =
  pj_name :: "string option"
  pj_location :: "string option"
  pj_client :: "string option"
  pj_startDate :: "string option option"
  pj_status :: "string option"
  pj_notes :: "string option option"

definition insertJobSchema :: "body \<Rightarrow> string list + insert_job" where
  "insertJobSchema b =
     (case do {
        name \<leftarrow> required z_string (b ''name'');
        location \<leftarrow> required z_string (b ''location'');
        client \<leftarrow> required z_string (b ''client'');
        startDate \<leftarrow> optional (nullable z_string) (b ''startDate'');
        status \<leftarrow> optional z_string (b ''status'');
        notes \<leftarrow> optional (nullable z_string) (b ''notes'');
        Some \<lparr>ij_name = name, ij_location = location, ij_client = client,
              ij_startDate = startDate, ij_status = status, ij_notes = notes\<rparr>
      } of
        Some d \<Rightarrow> Inr d
      | None \<Rightarrow> Inl (issues
          [(''name'', required z_string (b ''name'') \<noteq> None),
           (''location'', required z_string (b ''location'') \<noteq> None),
           (''client'', required z_string (b ''client'') \<noteq> None),
           (''startDate'', optional (nullable z_string) (b ''startDate'') \<noteq> None),
           (''status'', optional z_string (b ''status'') \<noteq> None),
           (''notes'', optional (nullable z_string) (b ''notes'') \<noteq> None)]))"

definition insertJobSchema_partial :: "body \<Rightarrow> string list + partial_job" where
  "insertJobSchema_partial b =
     (case do {
        name \<leftarrow> optional z_string (b ''name'');
        location \<leftarrow> optional z_string (b ''location'');
        client \<leftarrow> optional z_string (b ''client'');
        startDate \<leftarrow> optional (nullable z_string) (b ''startDate'');
        status \<leftarrow> optional z_string (b ''status'');
        notes \<leftarrow> optional (nullable z_string) (b ''notes'');
        Some \<lparr>pj_name = name, pj_location = location, pj_client = client,
              pj_startDate = startDate, pj_status = status, pj_notes = notes\<rparr>
      } of
        Some u \<Rightarrow> Inr u
      | None \<Rightarrow> Inl (issues
          [(''name'', optional z_string (b ''name'') \<noteq> None),
           (''location'', optional z_string (b ''location'') \<noteq> None),
           (''client'', optional z_string (b ''client'') \<noteq> None),
           (''startDate'', optional (nullable z_string) (b ''startDate'') \<noteq> None),
           (''status'', optional z_string (b ''status'') \<noteq> None),
           (''notes'', optional (nullable z_string) (b ''notes'') \<noteq> None)]))"

subsection \<open>\<open>estimateValidationSchema\<close>\<close>

text \<open>
  The three fields that the schema extends with a union of a number and a string: the
  string is read by \<open>parseFloat\<close>, with a default where the result is falsy.
\<close>

definition materialWeight_schema :: "json \<Rightarrow> number option" where
  "materialWeight_schema =
     union (transform z_number_positive Num)
           (transform z_string (\<lambda>val. or_else (parseFloat val) (Num 145)))"

definition importUnitCost_schema :: "json \<Rightarrow> number option" where
  "importUnitCost_schema =
     union (transform z_number_positive Num)
           (transform z_string (\<lambda>val. or_else (parseFloat val) (Num (2450 / 100))))"

definition estimatedHours_schema :: "json \<Rightarrow> number option" where
  "estimatedHours_schema =
     union (transform z_number_min0 Num)
           (transform z_string (\<lambda>val. or_else (parseFloat val) (Num 0)))"

text \<open>
  The output of \<open>estimateValidationSchema\<close> and of its \<open>partial()\<close>. The key
  \<open>createdAt\<close> is validated and, when it is accepted, it is null or missing; no
  operation of the storage reads it, and the records leave it out.
\<close>

record insert_estimate =
  ie_jobId :: int
  ie_description :: "string option option"
  ie_pipeLength :: rat
  ie_trenchWidth :: rat
  ie_trenchDepth :: rat
  ie_cubicYards :: rat
  ie_materialWeight :: number
  ie_importUnitCost :: number
  ie_estimatedHours :: number
  ie_notes :: "string option option"

record partial_estimate =
  pe_jobId :: "int option"
  pe_description :: "string option option"
  pe_pipeLength :: "rat option"
  pe_trenchWidth :: "rat option"
  pe_trenchDepth :: "rat option"
  pe_cubicYards :: "rat option"
  pe_materialWeight :: "number option"
  pe_importUnitCost :: "number option"
  pe_estimatedHours :: "number option"
  pe_notes :: "string option option"

definition estimateValidationSchema :: "body \<Rightarrow> string list + insert_estimate" where
  "estimateValidationSchema b =
     (case do {
        jobId \<leftarrow> required z_integer (b ''jobId'');
        description \<leftarrow> optional (nullable z_string) (b ''description'');
        pipeLength \<leftarrow> required z_number_positive (b ''pipeLength'');
        trenchWidth \<leftarrow> required z_number_positive (b ''trenchWidth'');
        trenchDepth \<leftarrow> required z_number_positive (b ''trenchDepth'');
        cubicYards \<leftarrow> required z_number (b ''cubicYards'');
        materialWeight \<leftarrow> required materialWeight_schema (b ''materialWeight'');
        importUnitCost \<leftarrow> required importUnitCost_schema (b ''importUnitCost'');
        estimatedHours \<leftarrow> required estimatedHours_schema (b ''estimatedHours'');
        createdAt \<leftarrow> optional (nullable z_date) (b ''createdAt'');
        notes \<leftarrow> optional (nullable z_string) (b ''notes'');
        Some \<lparr>ie_jobId = jobId, ie_description = description, ie_pipeLength = pipeLength,
              ie_trenchWidth = trenchWidth, ie_trenchDepth = trenchDepth,
              ie_cubicYards = cubicYards, ie_materialWeight = materialWeight,
              ie_importUnitCost = importUnitCost, ie_estimatedHours = estimatedHours,
              ie_notes = notes\<rparr>
      } of
        Some d \<Rightarrow> Inr d
      | None \<Rightarrow> Inl (issues
          [(''jobId'', required z_integer (b ''jobId'') \<noteq> None),
           (''description'', optional (nullable z_string) (b ''description'') \<noteq> None),
           (''pipeLength'', required z_number_positive (b ''pipeLength'') \<noteq> None),
           (''trenchWidth'', required z_number_positive (b ''trenchWidth'') \<noteq> None),
           (''trenchDepth'', required z_number_positive (b ''trenchDepth'') \<noteq> None),
           (''cubicYards'', required z_number (b ''cubicYards'') \<noteq> None),
           (''materialWeight'', required materialWeight_schema (b ''materialWeight'') \<noteq> None),
           (''importUnitCost'', required importUnitCost_schema (b ''importUnitCost'') \<noteq> None),
           (''estimatedHours'', required estimatedHours_schema (b ''estimatedHours'') \<noteq> None),
           (''createdAt'', optional (nullable z_date) (b ''createdAt'') \<noteq> None),
           (''notes'', optional (nullable z_string) (b ''notes'') \<noteq> None)]))"

definition estimateValidationSchema_partial :: "body \<Rightarrow> string list + partial_estimate" where
  "estimateValidationSchema_partial b =
     (case do {
        jobId \<leftarrow> optional z_integer (b ''jobId'');
        description \<leftarrow> optional (nullable z_string) (b ''description'');
        pipeLength \<leftarrow> optional z_number_positive (b ''pipeLength'');
        trenchWidth \<leftarrow> optional z_number_positive (b ''trenchWidth'');
        trenchDepth \<leftarrow> optional z_number_positive (b ''trenchDepth'');
        cubicYards \<leftarrow> optional z_number (b ''cubicYards'');
        materialWeight \<leftarrow> optional materialWeight_schema (b ''materialWeight'');
        importUnitCost \<leftarrow> optional importUnitCost_schema (b ''importUnitCost'');
        estimatedHours \<leftarrow> optional estimatedHours_schema (b ''estimatedHours'');
        createdAt \<leftarrow> optional (nullable z_date) (b ''createdAt'');
        notes \<leftarrow> optional (nullable z_string) (b ''notes'');
        Some \<lparr>pe_jobId = jobId, pe_description = description, pe_pipeLength = pipeLength,
              pe_trenchWidth = trenchWidth, pe_trenchDepth = trenchDepth,
              pe_cubicYards = cubicYards, pe_materialWeight = materialWeight,
              pe_importUnitCost = importUnitCost, pe_estimatedHours = estimatedHours,
              pe_notes = notes\<rparr>
      } of
        Some u \<Rightarrow> Inr u
      | None \<Rightarrow> Inl (issues
          [(''jobId'', optional z_integer (b ''jobId'') \<noteq> None),
           (''description'', optional (nullable z_string) (b ''description'') \<noteq> None),
           (''pipeLength'', optional z_number_positive (b ''pipeLength'') \<noteq> None),
           (''trenchWidth'', optional z_number_positive (b ''trenchWidth'') \<noteq> None),
           (''trenchDepth'', optional z_number_positive (b ''trenchDepth'') \<noteq> None),
           (''cubicYards'', optional z_number (b ''cubicYards'') \<noteq> None),
           (''materialWeight'', optional materialWeight_schema (b ''materialWeight'') \<noteq> None),
           (''importUnitCost'', optional importUnitCost_schema (b ''importUnitCost'') \<noteq> None),
           (''estimatedHours'', optional estimatedHours_schema (b ''estimatedHours'') \<noteq> None),
           (''createdAt'', optional (nullable z_date) (b ''createdAt'') \<noteq> None),
           (''notes'', optional (nullable z_string) (b ''notes'') \<noteq> None)]))"

section \<open>The storage\<close>

text \<open>
  The database behind \<open>DbStorage\<close>: the rows of the two tables and the last value that
  each \<open>serial\<close> sequence has issued. A statement either returns or throws; the two
  errors it can throw without a failure of the connection are a violated reference from
  \<open>estimates.job_id\<close> to \<open>jobs.id\<close> and an update that sets no column.
\<close>

record db =
  jobs :: "job list"
  estimates :: "estimate list"
  jobs_id_seq :: int
  estimates_id_seq :: int

datatype db_error = ForeignKeyViolation | NoValuesToSet

definition empty_db :: db where
  "empty_db = \<lparr>jobs = [], estimates = [], jobs_id_seq = 0, estimates_id_seq = 0\<rparr>"

definition job_exists :: "int \<Rightarrow> db \<Rightarrow> bool" where
  "job_exists i s = (find (\<lambda>j. j_id j = i) (jobs s) \<noteq> None)"

subsection \<open>Job operations\<close>

definition getJobs :: "db \<Rightarrow> job list" where
  "getJobs s = jobs s"

definition getJob :: "int \<Rightarrow> db \<Rightarrow> job option" where
  "getJob i s = find (\<lambda>j. j_id j = i) (jobs s)"

definition createJob :: "insert_job \<Rightarrow> db \<Rightarrow> job \<times> db" where
  "createJob insertJob s =
     (let row = \<lparr>j_id = jobs_id_seq s + 1,
                 j_name = ij_name insertJob,
                 j_location = ij_location insertJob,
                 j_client = ij_client insertJob,
                 j_startDate = or_null (ij_startDate insertJob),
                 j_status = or_text (ij_status insertJob) ''pending'',
                 j_notes = or_null (ij_notes insertJob)\<rparr>
      in (row, s\<lparr>jobs := jobs s @ [row], jobs_id_seq := jobs_id_seq s + 1\<rparr>))"

definition set_job :: "partial_job \<Rightarrow> job \<Rightarrow> job" where
  "set_job validData j =
     j\<lparr>j_name := coalesce (pj_name validData) (j_name j),
       j_location := coalesce (pj_location validData) (j_location j),
       j_client := coalesce (pj_client validData) (j_client j),
       j_startDate := coalesce (pj_startDate validData) (j_startDate j),
       j_status := coalesce (pj_status validData) (j_status j),
       j_notes := coalesce (pj_notes validData) (j_notes j)\<rparr>"

definition no_job_values :: "partial_job \<Rightarrow> bool" where
  "no_job_values u =
     (pj_name u = None \<and> pj_location u = None \<and> pj_client u = None \<and>
      pj_startDate u = None \<and> pj_status u = None \<and> pj_notes u = None)"

definition updateJob :: "int \<Rightarrow> partial_job \<Rightarrow> db \<Rightarrow> (db_error + job option) \<times> db" where
  "updateJob i updateData s =
     (if no_job_values updateData then (Inl NoValuesToSet, s)
      else
        let s' = s\<lparr>jobs := map (\<lambda>j. if j_id j = i then set_job updateData j else j) (jobs s)\<rparr>
        in (Inr (find (\<lambda>j. j_id j = i) (jobs s')), s'))"

text \<open>
  \<open>deleteJob\<close> runs two statements: the estimates of the job first, then the job, whose
  returned rows decide the result.
\<close>

definition deleteJob :: "int \<Rightarrow> db \<Rightarrow> bool \<times> db" where
  "deleteJob i s =
     (let s1 = s\<lparr>estimates := filter (\<lambda>e. e_jobId e \<noteq> i) (estimates s)\<rparr>;
          result = filter (\<lambda>j. j_id j = i) (jobs s1);
          s2 = s1\<lparr>jobs := filter (\<lambda>j. j_id j \<noteq> i) (jobs s1)\<rparr>
      in (length result > 0, s2))"

subsection \<open>Estimate operations\<close>

definition getEstimates :: "db \<Rightarrow> estimate list" where
  "getEstimates s = estimates s"

definition getEstimatesByJobId :: "int \<Rightarrow> db \<Rightarrow> estimate list" where
  "getEstimatesByJobId jobId s = filter (\<lambda>e. e_jobId e = jobId) (estimates s)"

definition getEstimate :: "int \<Rightarrow> db \<Rightarrow> estimate option" where
  "getEstimate i s = find (\<lambda>e. e_id e = i) (estimates s)"

text \<open>
  The insert draws the next id from the sequence before the reference to the job is
  checked, so a refused insert still uses an id up. \<open>now\<close> is the server's clock.
\<close>

definition createEstimate :: "nat \<Rightarrow> insert_estimate \<Rightarrow> db \<Rightarrow> (db_error + estimate) \<times> db" where
  "createEstimate now insertEstimate s =
     (let row = \<lparr>e_id = estimates_id_seq s + 1,
                 e_jobId = ie_jobId insertEstimate,
                 e_description = or_null (ie_description insertEstimate),
                 e_pipeLength = ie_pipeLength insertEstimate,
                 e_trenchWidth = ie_trenchWidth insertEstimate,
                 e_trenchDepth = ie_trenchDepth insertEstimate,
                 e_cubicYards = ie_cubicYards insertEstimate,
                 e_materialWeight = ie_materialWeight insertEstimate,
                 e_importUnitCost = ie_importUnitCost insertEstimate,
                 e_estimatedHours = Some (or_else (ie_estimatedHours insertEstimate) (Num 0)),
                 e_createdAt = Some now,
                 e_notes = or_null (ie_notes insertEstimate)\<rparr>;
          s1 = s\<lparr>estimates_id_seq := estimates_id_seq s + 1\<rparr>
      in if job_exists (ie_jobId insertEstimate) s
         then (Inr row, s1\<lparr>estimates := estimates s @ [row]\<rparr>)
         else (Inl ForeignKeyViolation, s1))"

definition set_estimate :: "partial_estimate \<Rightarrow> estimate \<Rightarrow> estimate" where
  "set_estimate validData e =
     e\<lparr>e_jobId := coalesce (pe_jobId validData) (e_jobId e),
       e_description := coalesce (pe_description validData) (e_description e),
       e_pipeLength := coalesce (pe_pipeLength validData) (e_pipeLength e),
       e_trenchWidth := coalesce (pe_trenchWidth validData) (e_trenchWidth e),
       e_trenchDepth := coalesce (pe_trenchDepth validData) (e_trenchDepth e),
       e_cubicYards := coalesce (pe_cubicYards validData) (e_cubicYards e),
       e_materialWeight := coalesce (pe_materialWeight validData) (e_materialWeight e),
       e_importUnitCost := coalesce (pe_importUnitCost validData) (e_importUnitCost e),
       e_estimatedHours := coalesce (map_option Some (pe_estimatedHours validData)) (e_estimatedHours e),
       e_notes := coalesce (pe_notes validData) (e_notes e)\<rparr>"

definition no_estimate_values :: "partial_estimate \<Rightarrow> bool" where
  "no_estimate_values u =
     (pe_jobId u = None \<and> pe_description u = None \<and> pe_pipeLength u = None \<and>
      pe_trenchWidth u = None \<and> pe_trenchDepth u = None \<and> pe_cubicYards u = None \<and>
      pe_materialWeight u = None \<and> pe_importUnitCost u = None \<and>
      pe_estimatedHours u = None \<and> pe_notes u = None)"

definition updateEstimate ::
  "int \<Rightarrow> partial_estimate \<Rightarrow> db \<Rightarrow> (db_error + estimate option) \<times> db" where
  "updateEstimate i updateData s =
     (if no_estimate_values updateData then (Inl NoValuesToSet, s)
      else if find (\<lambda>e. e_id e = i) (estimates s) \<noteq> None \<and>
              (case pe_jobId updateData of Some k \<Rightarrow> \<not> job_exists k s | None \<Rightarrow> False)
      then (Inl ForeignKeyViolation, s)
      else
        let s' = s\<lparr>estimates :=
                     map (\<lambda>e. if e_id e = i then set_estimate updateData e else e) (estimates s)\<rparr>
        in (Inr (find (\<lambda>e. e_id e = i) (estimates s')), s'))"

definition deleteEstimate :: "int \<Rightarrow> db \<Rightarrow> bool \<times> db" where
  "deleteEstimate i s =
     (let result = filter (\<lambda>e. e_id e = i) (estimates s)
      in (length result > 0, s\<lparr>estimates := filter (\<lambda>e. e_id e \<noteq> i) (estimates s)\<rparr>))"

section \<open>The routes\<close>

text \<open>
  A handler maps the request and the database to a response and the database after it.
  The responses are 200, 201, 204, 400 with the keys that have issues, 404 and 500. The
  id of a path is the integer that \<open>parseInt\<close> has read.
\<close>

datatype 'a response = OK 'a | Created 'a | NoContent | BadRequest "string list" | NotFound
  | ServerError

fun status_code :: "'a response \<Rightarrow> nat" where
  "status_code (OK _) = 200"
| "status_code (Created _) = 201"
| "status_code NoContent = 204"
| "status_code (BadRequest _) = 400"
| "status_code NotFound = 404"
| "status_code ServerError = 500"

definition get_api_jobs :: "db \<Rightarrow> job list response \<times> db" where
  "get_api_jobs s = (OK (getJobs s), s)"

definition get_api_jobs_id :: "int \<Rightarrow> db \<Rightarrow> job response \<times> db" where
  "get_api_jobs_id jobId s =
     (case getJob jobId s of None \<Rightarrow> (NotFound, s) | Some j \<Rightarrow> (OK j, s))"

definition post_api_jobs :: "body \<Rightarrow> db \<Rightarrow> job response \<times> db" where
  "post_api_jobs b s =
     (case insertJobSchema b of
        Inl errors \<Rightarrow> (BadRequest errors, s)
      | Inr d \<Rightarrow> (let (j, s') = createJob d s in (Created j, s')))"

definition put_api_jobs_id :: "int \<Rightarrow> body \<Rightarrow> db \<Rightarrow> job response \<times> db" where
  "put_api_jobs_id jobId b s =
     (case insertJobSchema_partial b of
        Inl errors \<Rightarrow> (BadRequest errors, s)
      | Inr u \<Rightarrow>
          (case updateJob jobId u s of
             (Inl err, s') \<Rightarrow> (ServerError, s')
           | (Inr None, s') \<Rightarrow> (NotFound, s')
           | (Inr (Some j), s') \<Rightarrow> (OK j, s')))"

definition delete_api_jobs_id :: "int \<Rightarrow> db \<Rightarrow> unit response \<times> db" where
  "delete_api_jobs_id jobId s =
     (let (success, s') = deleteJob jobId s
      in if \<not> success then (NotFound, s') else (NoContent, s'))"

text \<open>The query parameter \<open>jobId\<close> filters the list unless it is missing or falsy.\<close>

definition get_api_estimates :: "int option \<Rightarrow> db \<Rightarrow> estimate list response \<times> db" where
  "get_api_estimates jobId s =
     (case jobId of
        Some k \<Rightarrow> if k \<noteq> 0 then (OK (getEstimatesByJobId k s), s) else (OK (getEstimates s), s)
      | None \<Rightarrow> (OK (getEstimates s), s))"

definition get_api_estimates_id :: "int \<Rightarrow> db \<Rightarrow> estimate response \<times> db" where
  "get_api_estimates_id estimateId s =
     (case getEstimate estimateId s of None \<Rightarrow> (NotFound, s) | Some e \<Rightarrow> (OK e, s))"

text \<open>
  After validation \<open>materialWeight\<close> is a number in every case, so the test
  \<open>typeof ... === 'number'\<close> of the handler holds and the field is passed on as it is.
\<close>

definition post_api_estimates :: "nat \<Rightarrow> body \<Rightarrow> db \<Rightarrow> estimate response \<times> db" where
  "post_api_estimates now b s =
     (case estimateValidationSchema b of
        Inl errors \<Rightarrow> (BadRequest errors, s)
      | Inr d \<Rightarrow>
          (let cubicYards =
                 calculateCubicYards (ie_pipeLength d) (ie_trenchWidth d) (ie_trenchDepth d)
           in case createEstimate now
                     (d\<lparr>ie_materialWeight := ie_materialWeight d, ie_cubicYards := cubicYards\<rparr>) s of
                (Inl err, s') \<Rightarrow> (ServerError, s')
              | (Inr e, s') \<Rightarrow> (Created e, s')))"

definition put_api_estimates_id :: "int \<Rightarrow> body \<Rightarrow> db \<Rightarrow> estimate response \<times> db" where
  "put_api_estimates_id estimateId b s =
     (case estimateValidationSchema_partial b of
        Inl errors \<Rightarrow> (BadRequest errors, s)
      | Inr u \<Rightarrow>
          (case getEstimate estimateId s of
             None \<Rightarrow> (NotFound, s)
           | Some currentEstimate \<Rightarrow>
               (let cubicYards =
                      (if pe_pipeLength u \<noteq> None \<or> pe_trenchWidth u \<noteq> None \<or>
                          pe_trenchDepth u \<noteq> None
                       then
                         (let newPipeLength = coalesce (pe_pipeLength u) (e_pipeLength currentEstimate);
                              newTrenchWidth = coalesce (pe_trenchWidth u) (e_trenchWidth currentEstimate);
                              newTrenchDepth = coalesce (pe_trenchDepth u) (e_trenchDepth currentEstimate)
                          in calculateCubicYards newPipeLength newTrenchWidth newTrenchDepth)
                       else e_cubicYards currentEstimate)
                in case updateEstimate estimateId
                          (u\<lparr>pe_materialWeight :=
                               Some (coalesce (pe_materialWeight u) (e_materialWeight currentEstimate)),
                             pe_cubicYards := Some cubicYards\<rparr>) s of
                     (Inl err, s') \<Rightarrow> (ServerError, s')
                   | (Inr None, s') \<Rightarrow> (NotFound, s')
                   | (Inr (Some e), s') \<Rightarrow> (OK e, s'))))"

definition delete_api_estimates_id :: "int \<Rightarrow> db \<Rightarrow> unit response \<times> db" where
  "delete_api_estimates_id estimateId s =
     (let (success, s') = deleteEstimate estimateId s
      in if \<not> success then (NotFound, s') else (NoContent, s'))"

subsection \<open>Runs of the server\<close>

text \<open>
  The requests that the server accepts, the effect of one on the database, and the
  database after a sequence of them. A request that creates an estimate carries the time
  at which the server handles it.
\<close>

datatype request =
    GET_jobs
  | GET_job int
  | POST_job body
  | PUT_job int body
  | DELETE_job int
  | GET_estimates "int option"
  | GET_estimate int
  | POST_estimate nat body
  | PUT_estimate int body
  | DELETE_estimate int

fun step :: "db \<Rightarrow> request \<Rightarrow> db" where
  "step s GET_jobs = snd (get_api_jobs s)"
| "step s (GET_job i) = snd (get_api_jobs_id i s)"
| "step s (POST_job b) = snd (post_api_jobs b s)"
| "step s (PUT_job i b) = snd (put_api_jobs_id i b s)"
| "step s (DELETE_job i) = snd (delete_api_jobs_id i s)"
| "step s (GET_estimates q) = snd (get_api_estimates q s)"
| "step s (GET_estimate i) = snd (get_api_estimates_id i s)"
| "step s (POST_estimate now b) = snd (post_api_estimates now b s)"
| "step s (PUT_estimate i b) = snd (put_api_estimates_id i b s)"
| "step s (DELETE_estimate i) = snd (delete_api_estimates_id i s)"

definition run :: "request list \<Rightarrow> db" where
  "run rs = foldl step empty_db rs"

section \<open>Properties of the database\<close>










section \<open>Example requests\<close>

text \<open>
  Request bodies for the concrete runs below. The job leaves its status out and has empty
  notes. The estimate refers to job 1, is 100 by 2 by 3 feet, claims a volume of 999 and
  gives the three rates as strings, none of which reads as a number other than zero.
\<close>

definition job_body :: body where
  "job_body =
     [''name'' \<mapsto> JString ''Sewer main'', ''location'' \<mapsto> JString ''Elm Street'',
      ''client'' \<mapsto> JString ''City'', ''notes'' \<mapsto> JString []]"

definition estimate_body :: body where
  "estimate_body =
     [''jobId'' \<mapsto> JNumber 1, ''pipeLength'' \<mapsto> JNumber 100, ''trenchWidth'' \<mapsto> JNumber 2,
      ''trenchDepth'' \<mapsto> JNumber 3, ''cubicYards'' \<mapsto> JNumber 999,
      ''materialWeight'' \<mapsto> JString ''heavy'', ''importUnitCost'' \<mapsto> JString ''0.0'',
      ''estimatedHours'' \<mapsto> JString []]"

text \<open>The estimate row that the server stores for \<open>estimate_body\<close> at time 7.\<close>

definition estimate_row :: estimate where
  "estimate_row =
     \<lparr>e_id = 1, e_jobId = 1, e_description = None, e_pipeLength = 100, e_trenchWidth = 2,
      e_trenchDepth = 3, e_cubicYards = 2222 / 100, e_materialWeight = Num 145,
      e_importUnitCost = Num (2450 / 100), e_estimatedHours = Some (Num 0),
      e_createdAt = Some 7, e_notes = None\<rparr>"

text \<open>
  The job row that the server stores for \<open>job_body\<close>, and a database with two jobs, of
  which the first has two estimates and the second one.
\<close>

definition job_row :: job where
  "job_row =
     \<lparr>j_id = 1, j_name = ''Sewer main'', j_location = ''Elm Street'', j_client = ''City'',
      j_startDate = None, j_status = ''pending'', j_notes = None\<rparr>"

definition two_jobs_db :: db where
  "two_jobs_db =
     \<lparr>jobs = [job_row, job_row\<lparr>j_id := 2\<rparr>],
      estimates = [estimate_row, estimate_row\<lparr>e_id := 2\<rparr>,
                   estimate_row\<lparr>e_id := 3, e_jobId := 2\<rparr>],
      jobs_id_seq = 2, estimates_id_seq = 3\<rparr>"

section \<open>The volume formula\<close>





section \<open>The labor costs\<close>

text \<open>
  Claim C8. For every number of hours \<open>h\<close> the three equipment costs are \<open>h * 250\<close>,
  \<open>h * 200\<close> and \<open>h * 200\<close>, and the total equipment cost is their sum, which is
  \<open>650 * h\<close>. For 8 hours the total is 5200, and it is rendered with two decimals as
  5200.00.
\<close>

theorem equipment_labor_cost:
  "excavator250Cost (LaborCalculator h) = h * 250 \<and>
   excavator200Cost (LaborCalculator h) = h * 200 \<and>
   loaderCost (LaborCalculator h) = h * 200 \<and>
   totalEquipmentCost (LaborCalculator h) = h * 250 + h * 200 + h * 200 \<and>
   totalEquipmentCost (LaborCalculator h) = 650 * h \<and>
   totalEquipmentCost (LaborCalculator 8) = 5200 \<and>
   toFixed (totalEquipmentCost (LaborCalculator 8)) 2 = 5200"
  by (simp add: LaborCalculator_def EXCAVATOR_250_RATE_def EXCAVATOR_200_RATE_def
      LOADER_RATE_def toFixed_def Let_def floor_eq_iff)

section \<open>The server keeps its tables consistent\<close>


lemma e_id_set_estimate [simp]: "e_id (set_estimate u e) = e_id e"
  by (simp add: set_estimate_def)

lemma j_id_set_job [simp]: "j_id (set_job u j) = j_id j"
  by (simp add: set_job_def)


subsection \<open>The volume of every stored estimate\<close>








subsection \<open>The keys of the tables\<close>

lemma j_id_comp_set_job [simp]:
  "j_id \<circ> (\<lambda>j. if j_id j = i then set_job u j else j) = j_id"
  by (auto simp: fun_eq_iff)

lemma e_id_comp_set_estimate [simp]:
  "e_id \<circ> (\<lambda>e. if e_id e = i then set_estimate u e else e) = e_id"
  by (auto simp: fun_eq_iff)











lemma snd_get_api [simp]:
  "snd (get_api_jobs s) = s"
  "snd (get_api_jobs_id i s) = s"
  "snd (get_api_estimates q s) = s"
  "snd (get_api_estimates_id i s) = s"
  by (simp_all add: get_api_jobs_def get_api_jobs_id_def get_api_estimates_def
      get_api_estimates_id_def split: option.splits)


lemma estimates_job_ops [simp]:
  "estimates (snd (createJob d s)) = estimates s"
  "estimates (snd (updateJob i u s)) = estimates s"
  by (simp_all add: createJob_def updateJob_def Let_def)






subsection \<open>What the estimate schema accepts\<close>

lemma estimateValidationSchema_Inr_iff:
  "estimateValidationSchema b = Inr d \<longleftrightarrow>
     required z_integer (b ''jobId'') = Some (ie_jobId d) \<and>
     optional (nullable z_string) (b ''description'') = Some (ie_description d) \<and>
     required z_number_positive (b ''pipeLength'') = Some (ie_pipeLength d) \<and>
     required z_number_positive (b ''trenchWidth'') = Some (ie_trenchWidth d) \<and>
     required z_number_positive (b ''trenchDepth'') = Some (ie_trenchDepth d) \<and>
     required z_number (b ''cubicYards'') = Some (ie_cubicYards d) \<and>
     required materialWeight_schema (b ''materialWeight'') = Some (ie_materialWeight d) \<and>
     required importUnitCost_schema (b ''importUnitCost'') = Some (ie_importUnitCost d) \<and>
     required estimatedHours_schema (b ''estimatedHours'') = Some (ie_estimatedHours d) \<and>
     optional (nullable z_date) (b ''createdAt'') \<noteq> None \<and>
     optional (nullable z_string) (b ''notes'') = Some (ie_notes d)"
  unfolding estimateValidationSchema_def
  by (cases d) (auto simp: bind_eq_Some_conv split: option.splits)


lemma estimateValidationSchema_pipeLength_issue:
  assumes "required z_number_positive (b ''pipeLength'') = None"
  shows "\<exists>errors. estimateValidationSchema b = Inl errors \<and> ''pipeLength'' \<in> set errors"
proof (cases "estimateValidationSchema b")
  case (Inl errors)
  then have "errors = issues
          [(''jobId'', required z_integer (b ''jobId'') \<noteq> None),
           (''description'', optional (nullable z_string) (b ''description'') \<noteq> None),
           (''pipeLength'', required z_number_positive (b ''pipeLength'') \<noteq> None),
           (''trenchWidth'', required z_number_positive (b ''trenchWidth'') \<noteq> None),
           (''trenchDepth'', required z_number_positive (b ''trenchDepth'') \<noteq> None),
           (''cubicYards'', required z_number (b ''cubicYards'') \<noteq> None),
           (''materialWeight'', required materialWeight_schema (b ''materialWeight'') \<noteq> None),
           (''importUnitCost'', required importUnitCost_schema (b ''importUnitCost'') \<noteq> None),
           (''estimatedHours'', required estimatedHours_schema (b ''estimatedHours'') \<noteq> None),
           (''createdAt'', optional (nullable z_date) (b ''createdAt'') \<noteq> None),
           (''notes'', optional (nullable z_string) (b ''notes'') \<noteq> None)]"
    unfolding estimateValidationSchema_def by (simp split: option.splits)
  with assms have "''pipeLength'' \<in> set errors"
    by (simp add: issues_def)
  with Inl show ?thesis by simp
next
  case (Inr d)
  with assms show ?thesis by (simp add: estimateValidationSchema_Inr_iff)
qed

section \<open>Creating and updating estimates\<close>


lemma required_z_number_JNumber [simp]: "required z_number (Some (JNumber v)) = Some v"
  by (simp add: required_def)















text \<open>
  Claim C4. A POST of an estimate whose \<open>pipeLength\<close> is zero or negative is answered
  with 400, \<open>pipeLength\<close> is among the keys reported, and the database is unchanged, so
  that no row is created.
\<close>

theorem post_estimate_rejects_nonpositive_pipeLength:
  assumes "b ''pipeLength'' = Some (JNumber q)" and "q \<le> 0"
  shows "\<exists>errors. post_api_estimates now b s = (BadRequest errors, s) \<and>
           ''pipeLength'' \<in> set errors \<and>
           status_code (fst (post_api_estimates now b s)) = 400"
proof -
  from assms have "required z_number_positive (b ''pipeLength'') = None"
    by (simp add: required_def z_number_positive_def)
  then obtain errors where "estimateValidationSchema b = Inl errors" "''pipeLength'' \<in> set errors"
    using estimateValidationSchema_pipeLength_issue by blast
  then show ?thesis by (simp add: post_api_estimates_def)
qed

theorem post_estimate_rejects_nonpositive_pipeLength_witness:
  "(estimate_body(''pipeLength'' \<mapsto> JNumber 0)) ''pipeLength'' = Some (JNumber 0) \<and>
   (0::rat) \<le> 0 \<and>
   (\<exists>errors. post_api_estimates 7 (estimate_body(''pipeLength'' \<mapsto> JNumber 0))
                (run [POST_job job_body]) = (BadRequest errors, run [POST_job job_body]) \<and>
      ''pipeLength'' \<in> set errors \<and>
      status_code (fst (post_api_estimates 7 (estimate_body(''pipeLength'' \<mapsto> JNumber 0))
                (run [POST_job job_body]))) = 400) \<and>
   getEstimates (run [POST_job job_body]) = []"
proof -
  have b: "(estimate_body(''pipeLength'' \<mapsto> JNumber 0)) ''pipeLength'' = Some (JNumber 0)"
    by simp
  have q: "(0::rat) \<le> 0" by simp
  have e: "getEstimates (run [POST_job job_body]) = []" by code_simp
  from post_estimate_rejects_nonpositive_pipeLength[of "estimate_body(''pipeLength'' \<mapsto> JNumber 0)" 0
      7 "run [POST_job job_body]"] b q e
  show ?thesis by blast
qed

section \<open>Deleting a job\<close>

lemma filter_empty_find: "(filter P xs = []) = (find P xs = None)"
  by (induction xs) auto

text \<open>
  Claim C5. \<open>deleteJob\<close> removes the estimates of the job and then the job: it returns
  true exactly when the job existed; afterwards no estimate has that \<open>jobId\<close>, the job
  is not found and is not in the list of jobs, and the other estimates and jobs are as
  before. A job without estimates is deleted the same way. The route answers 204 when
  the job existed and 404 otherwise.
\<close>

theorem deleteJob_cascades:
  "fst (deleteJob i s) = (getJob i s \<noteq> None) \<and>
   getEstimatesByJobId i (snd (deleteJob i s)) = [] \<and>
   getJob i (snd (deleteJob i s)) = None \<and>
   (\<forall>j \<in> set (getJobs (snd (deleteJob i s))). j_id j \<noteq> i) \<and>
   getEstimates (snd (deleteJob i s)) = filter (\<lambda>e. e_jobId e \<noteq> i) (getEstimates s) \<and>
   getJobs (snd (deleteJob i s)) = filter (\<lambda>j. j_id j \<noteq> i) (getJobs s) \<and>
   delete_api_jobs_id i s =
     (if getJob i s \<noteq> None then NoContent else NotFound, snd (deleteJob i s))"
proof -
  have "fst (deleteJob i s) = (getJob i s \<noteq> None)"
    by (simp add: deleteJob_def getJob_def Let_def filter_empty_find)
  moreover have "getEstimatesByJobId i (snd (deleteJob i s)) = []"
    by (simp add: deleteJob_def getEstimatesByJobId_def Let_def filter_empty_conv)
  moreover have "getJob i (snd (deleteJob i s)) = None"
    by (simp add: deleteJob_def getJob_def Let_def find_None_iff)
  moreover have "\<forall>j \<in> set (getJobs (snd (deleteJob i s))). j_id j \<noteq> i"
    by (simp add: deleteJob_def getJobs_def Let_def)
  moreover have "getEstimates (snd (deleteJob i s)) = filter (\<lambda>e. e_jobId e \<noteq> i) (getEstimates s)"
    by (simp add: deleteJob_def getEstimates_def Let_def)
  moreover have "getJobs (snd (deleteJob i s)) = filter (\<lambda>j. j_id j \<noteq> i) (getJobs s)"
    by (simp add: deleteJob_def getJobs_def Let_def)
  moreover have "delete_api_jobs_id i s =
     (if getJob i s \<noteq> None then NoContent else NotFound, snd (deleteJob i s))"
    using \<open>fst (deleteJob i s) = (getJob i s \<noteq> None)\<close>
    by (cases "deleteJob i s") (auto simp: delete_api_jobs_id_def)
  ultimately show ?thesis by blast
qed

theorem deleteJob_cascades_witness:
  "map e_id (getEstimatesByJobId 1 two_jobs_db) = [1, 2] \<and>
   fst (deleteJob 1 two_jobs_db) \<and>
   getEstimatesByJobId 1 (snd (deleteJob 1 two_jobs_db)) = [] \<and>
   getJob 1 (snd (deleteJob 1 two_jobs_db)) = None \<and>
   map e_id (getEstimates (snd (deleteJob 1 two_jobs_db))) = [3] \<and>
   map j_id (getJobs (snd (deleteJob 1 two_jobs_db))) = [2] \<and>
   delete_api_jobs_id 1 two_jobs_db = (NoContent, snd (deleteJob 1 two_jobs_db)) \<and>
   \<not> fst (deleteJob 3 two_jobs_db) \<and>
   delete_api_jobs_id 3 two_jobs_db = (NotFound, snd (deleteJob 3 two_jobs_db))"
proof -
  note del1 = deleteJob_cascades[of 1 two_jobs_db]
  note del3 = deleteJob_cascades[of 3 two_jobs_db]
  have before: "map e_id (getEstimatesByJobId 1 two_jobs_db) = [1, 2]"
    by code_simp
  have found: "getJob 1 two_jobs_db \<noteq> None" and missing: "getJob 3 two_jobs_db = None"
    by code_simp+
  have rest: "map e_id (filter (\<lambda>e. e_jobId e \<noteq> 1) (getEstimates two_jobs_db)) = [3]"
    "map j_id (filter (\<lambda>j. j_id j \<noteq> 1) (getJobs two_jobs_db)) = [2]"
    by code_simp+
  from del1 found have a: "fst (deleteJob 1 two_jobs_db)" by blast
  from del1 have b: "getEstimatesByJobId 1 (snd (deleteJob 1 two_jobs_db)) = []" by blast
  from del1 have c: "getJob 1 (snd (deleteJob 1 two_jobs_db)) = None" by blast
  from del1 have "getEstimates (snd (deleteJob 1 two_jobs_db)) =
      filter (\<lambda>e. e_jobId e \<noteq> 1) (getEstimates two_jobs_db)" by blast
  with rest have d: "map e_id (getEstimates (snd (deleteJob 1 two_jobs_db))) = [3]"
    by (simp only:)
  from del1 have "getJobs (snd (deleteJob 1 two_jobs_db)) =
      filter (\<lambda>j. j_id j \<noteq> 1) (getJobs two_jobs_db)" by blast
  with rest have e: "map j_id (getJobs (snd (deleteJob 1 two_jobs_db))) = [2]"
    by (simp only:)
  from del1 have "delete_api_jobs_id 1 two_jobs_db =
      (if getJob 1 two_jobs_db \<noteq> None then NoContent else NotFound, snd (deleteJob 1 two_jobs_db))"
    by blast
  with found have f: "delete_api_jobs_id 1 two_jobs_db = (NoContent, snd (deleteJob 1 two_jobs_db))"
    by simp
  from del3 missing have g: "\<not> fst (deleteJob 3 two_jobs_db)" by blast
  from del3 have "delete_api_jobs_id 3 two_jobs_db =
      (if getJob 3 two_jobs_db \<noteq> None then NoContent else NotFound, snd (deleteJob 3 two_jobs_db))"
    by blast
  with missing have h: "delete_api_jobs_id 3 two_jobs_db = (NotFound, snd (deleteJob 3 two_jobs_db))"
    by simp
  from before a b c d e f g h show ?thesis by blast
qed

section \<open>Rates given as strings\<close>










section \<open>Creating a row and fetching it\<close>












section \<open>The status of a job\<close>








lemma jobs_estimate_ops [simp]:
  "jobs (snd (createEstimate now d s)) = jobs s"
  "jobs (snd (updateEstimate i u s)) = jobs s"
  "jobs (snd (deleteEstimate i s)) = jobs s"
  by (simp_all add: createEstimate_def updateEstimate_def deleteEstimate_def Let_def)










end
